theory Spec2Isabelle
  imports Complex_Main
begin

section \<open>JavaScript values\<close>

text \<open>
  The page \<^verbatim>\<open>src/app/(pages)/user/profile/page.tsx\<close> receives its record as
  \<^verbatim>\<open>response.data\<close> (type \<^verbatim>\<open>any\<close>) and indexes it with
  \<^verbatim>\<open>[key: string]: any\<close>, so a field can hold any value that parsing JSON gives, and
  a missing key reads as \<^verbatim>\<open>undefined\<close>. A finite number is the rational it equals
  (every double is one; both zeros are \<open>0\<close>); \<open>JInfinity neg\<close> is the infinity that
  an overlong literal such as \<^verbatim>\<open>1e999\<close> parses to, negative when \<open>neg\<close>.
\<close>

datatype jsval =
    JUndefined
  | JNull
  | JBool bool
  | JNum rat
  | JInfinity bool
  | JStr string
  | JArr "jsval list"
  | JObj "(string \<times> jsval) list"

text \<open>ToBoolean: what \<^verbatim>\<open>!x\<close>, \<^verbatim>\<open>x ? a : b\<close> and \<^verbatim>\<open>x || y\<close> test.\<close>

fun truthy :: "jsval \<Rightarrow> bool" where
  "truthy JUndefined = False"
| "truthy JNull = False"
| "truthy (JBool b) = b"
| "truthy (JNum n) = (n \<noteq> 0)"
| "truthy (JInfinity neg) = True"
| "truthy (JStr s) = (s \<noteq> [])"
| "truthy (JArr xs) = True"
| "truthy (JObj kvs) = True"

text \<open>The operator \<^verbatim>\<open>a || b\<close>: the left operand when it is truthy, else the right one.\<close>

definition js_or :: "jsval \<Rightarrow> jsval \<Rightarrow> jsval" where
  "js_or a b = (if truthy a then a else b)"

text \<open>
  Property read \<^verbatim>\<open>x[key]\<close> and \<^verbatim>\<open>x.key\<close> on a value that is neither
  \<^verbatim>\<open>null\<close> nor \<^verbatim>\<open>undefined\<close>: an own property of an object, and
  \<^verbatim>\<open>undefined\<close> for every key the page uses on any other value (none of those keys is a
  property of a primitive, of an array or of \<^verbatim>\<open>Object.prototype\<close>).
\<close>

fun get_prop :: "jsval \<Rightarrow> string \<Rightarrow> jsval" where
  "get_prop (JObj kvs) k = (case map_of kvs k of None \<Rightarrow> JUndefined | Some v \<Rightarrow> v)"
| "get_prop v k = JUndefined"

text \<open>Optional chaining \<^verbatim>\<open>x?.key\<close>: \<^verbatim>\<open>undefined\<close> when \<^verbatim>\<open>x\<close> is nullish.\<close>

fun get_prop_opt :: "jsval \<Rightarrow> string \<Rightarrow> jsval" where
  "get_prop_opt JUndefined k = JUndefined"
| "get_prop_opt JNull k = JUndefined"
| "get_prop_opt v k = get_prop v k"

text \<open>
  ToString, as the template literal \<^verbatim>\<open>`${x}`\<close> applies it, where this model computes
  it. An integer of magnitude up to \<open>2\<^sup>5\<^sup>3\<close> prints its decimal digits. An array joins
  its elements with commas, a nullish element giving the empty string. A plain object gives
  \<^verbatim>\<open>[object Object]\<close>. The result is \<open>None\<close> in the two cases that are left
  open: for any other finite number (JavaScript prints the shortest digits that read back
  as the same double, with a fraction or, from \<^verbatim>\<open>1e21\<close> on, an exponent), and for an
  object that has a property \<^verbatim>\<open>toString\<close> of its own, alone or inside an array
  (no parsed value is callable, so the conversion throws a TypeError).
\<close>

fun nat_digits :: "nat \<Rightarrow> string" where
  "nat_digits n =
     (if n < 10 then [''0123456789'' ! n]
      else nat_digits (n div 10) @ [''0123456789'' ! (n mod 10)])"

declare nat_digits.simps [simp del]

definition int_digits :: "int \<Rightarrow> string" where
  "int_digits n = (if n < 0 then ''-'' @ nat_digits (nat (- n)) else nat_digits (nat n))"

fun join_comma :: "string list \<Rightarrow> string" where
  "join_comma [] = []"
| "join_comma [s] = s"
| "join_comma (s # t # ss) = s @ '','' @ join_comma (t # ss)"

fun to_string :: "jsval \<Rightarrow> string option" where
  "to_string JUndefined = Some ''undefined''"
| "to_string JNull = Some ''null''"
| "to_string (JBool b) = Some (if b then ''true'' else ''false'')"
| "to_string (JNum q) =
     (if of_int \<lfloor>q\<rfloor> = q \<and> \<bar>q\<bar> \<le> 2 ^ 53 then Some (int_digits \<lfloor>q\<rfloor>) else None)"
| "to_string (JInfinity neg) = Some (if neg then ''-Infinity'' else ''Infinity'')"
| "to_string (JStr s) = Some s"
| "to_string (JArr xs) =
     map_option join_comma
       (those (map (\<lambda>x. case x of JUndefined \<Rightarrow> Some [] | JNull \<Rightarrow> Some [] | _ \<Rightarrow> to_string x) xs))"
| "to_string (JObj kvs) =
     (case map_of kvs ''toString'' of None \<Rightarrow> Some ''[object Object]'' | Some f \<Rightarrow> None)"

section \<open>The element tree\<close>

text \<open>
  What the component returns: a tree of elements, each with its tag, its \<^verbatim>\<open>key\<close>
  (only the rows made by \<^verbatim>\<open>.map\<close> have one), its \<^verbatim>\<open>className\<close> and its
  children. A child is an element or a value: JSX text and \<^verbatim>\<open>{expr}\<close> both put a value
  there. The children of a \<^verbatim>\<open>CardContent\<close> that holds a mapped array followed by one
  more row are listed flat, in document order. \<open>Template v\<close> is the template literal
  \<^verbatim>\<open>`${v}`\<close> left unevaluated, for a value \<open>v\<close> whose text \<open>to_string\<close> leaves
  open; where evaluating it throws, the render throws with it, and the tree is the one
  the render was building.
\<close>

datatype tag = Div | H1 | P | Span | Card | CardHeader | CardTitle | CardContent | Label | Loader2

datatype node =
    Elem tag "string option" string "node list"
  | Val jsval
  | Template jsval

subsection \<open>The loading view (lines 96-101)\<close>

definition loading_view :: node where
  "loading_view =
     Elem Div None ''min-h-screen flex items-center justify-center bg-gray-100''
       [Elem Loader2 None ''h-8 w-8 animate-spin text-blue-600'' [],
        Elem P None ''ml-2'' [Val (JStr ''Please wait a moment data is loading.'')]]"

subsection \<open>The field tables, as the arrays of the source list them: (key, label)\<close>

definition personal_fields :: "(string \<times> string) list" where
  "personal_fields =
     [(''name'', ''Full Name''),
      (''email'', ''Email''),
      (''dob'', ''Date of Birth''),
      (''phone'', ''Phone''),
      (''area'', ''Area''),
      (''landmark'', ''Landmark''),
      (''address'', ''Address''),
      (''sonOf'', ''Son/Daughter Of''),
      (''resident'', ''Resident Of'')]"

definition exam_fields :: "(string \<times> string) list" where
  "exam_fields =
     [(''examCityPreference1'', ''Exam City Preference 1''),
      (''examCityPreference2'', ''Exam City Preference 2'')]"

definition experience_fields :: "(string \<times> string) list" where
  "experience_fields =
     [(''previousCdaExperience'', ''Previous CDAC Experience''),
      (''cdaExperienceYears'', ''Years of Experience''),
      (''cdaExperienceRole'', ''Role in CDA'')]"

definition document_fields :: "(string \<times> string) list" where
  "document_fields =
     [(''photo'', ''Photo''),
      (''signature'', ''Signature''),
      (''thumbprint'', ''Thumbprint'')]"

definition bank_fields :: "(string \<times> string) list" where
  "bank_fields =
     [(''accountHolderName'', ''Account Holder Name''),
      (''bankName'', ''Bank Name''),
      (''ifsc'', ''IFSC Code''),
      (''branch'', ''Branch''),
      (''bankAccountNo'', ''Bank Account No.'')]"

definition health_fields :: "(string \<times> string) list" where
  "health_fields =
     [(''fever'', ''Fever''),
      (''cough'', ''Cough''),
      (''breathlessness'', ''Breathlessness''),
      (''soreThroat'', ''Sore Throat''),
      (''otherSymptoms'', ''Other Symptoms''),
      (''otherSymptomsDetails'', ''Other Symptoms Details''),
      (''closeContact'', ''Close Contact with COVID Case'')]"

subsection \<open>Class names that the source repeats\<close>

definition row_class :: string where
  "row_class = ''flex flex-col md:flex-row items-start md:items-center justify-between gap-4 py-2''"

definition label_class :: string where
  "label_class = ''text-blue-700 w-full md:w-1/3 font-semibold text-lg''"

definition cell_class :: string where
  "cell_class = ''w-full md:w-2/3''"

definition text_span_class :: string where
  "text_span_class = ''text-gray-800 bg-gray-100 px-3 py-1 rounded-md text-base font-medium''"

definition aadhaar_span_class :: string where
  "aadhaar_span_class = ''text-gray-800 bg-yellow-100 px-3 py-1 rounded-md text-base font-medium''"

text \<open>
  The template literal of the flag rows:
  \<^verbatim>\<open>`text-gray-800 px-3 py-1 rounded-md text-base font-medium ${c ? "bg-green-100" : "bg-red-100"}`\<close>.
\<close>

definition flag_span_class :: "jsval \<Rightarrow> string" where
  "flag_span_class c =
     ''text-gray-800 px-3 py-1 rounded-md text-base font-medium '' @
       (if truthy c then ''bg-green-100'' else ''bg-red-100'')"

definition card_class :: string where
  "card_class =
     ''mb-10 shadow-lg rounded-xl border border-gray-200 hover:shadow-xl transition-shadow duration-300''"

definition card_header_class :: string where
  "card_header_class = ''bg-blue-50 rounded-t-xl''"

definition card_title_class :: string where
  "card_title_class = ''text-2xl md:text-3xl font-bold text-blue-800''"

definition card_content_class :: string where
  "card_content_class = ''space-y-5 p-6''"

subsection \<open>Rows\<close>

text \<open>A row: the label, then the cell with one span. All rows of the page have this shape.\<close>

definition row :: "string option \<Rightarrow> string \<Rightarrow> string \<Rightarrow> jsval \<Rightarrow> node" where
  "row k lbl span_class shown =
     Elem Div k row_class
       [Elem Label None label_class [Val (JStr lbl)],
        Elem Div None cell_class [Elem Span None span_class [Val shown]]]"

text \<open>The body of \<^verbatim>\<open>.map((field) => ...)\<close> in the five text groups (lines 135-147 and its
  copies): \<^verbatim>\<open>{profileData[field.key] || "N/A"}\<close>.\<close>

definition text_row :: "jsval \<Rightarrow> string \<times> string \<Rightarrow> node" where
  "text_row profileData field =
     row (Some (fst field)) (snd field) text_span_class
       (js_or (get_prop profileData (fst field)) (JStr ''N/A''))"

text \<open>The body of the map in the Documents group (lines 227-243).\<close>

definition document_row :: "jsval \<Rightarrow> string \<times> string \<Rightarrow> node" where
  "document_row profileData field =
     row (Some (fst field)) (snd field) (flag_span_class (get_prop profileData (fst field)))
       (if truthy (get_prop profileData (fst field)) then JStr ''Uploaded''
        else JStr ''No file uploaded'')"

text \<open>The Aadhaar row (lines 245-254), which has no key.\<close>

definition aadhaar_row :: "jsval \<Rightarrow> node" where
  "aadhaar_row profileData =
     row None ''Aadhaar No.'' aadhaar_span_class
       (js_or (get_prop profileData ''aadhaarNo'') (JStr ''N/A''))"

text \<open>The two agreement rows (lines 321-336 and 348-363).\<close>

definition agreement_row :: "string \<Rightarrow> jsval \<Rightarrow> node" where
  "agreement_row lbl v =
     row None lbl (flag_span_class v) (if truthy v then JStr ''Yes'' else JStr ''No'')"

subsection \<open>Cards and the page (lines 108-368)\<close>

definition card :: "string \<Rightarrow> node list \<Rightarrow> node" where
  "card title rows =
     Elem Card None card_class
       [Elem CardHeader None card_header_class
          [Elem CardTitle None card_title_class [Val (JStr title)]],
        Elem CardContent None card_content_class rows]"

text \<open>The value of \<^verbatim>\<open>`${v}`\<close> as a child: its text where the model computes it.\<close>

definition template_literal :: "jsval \<Rightarrow> node" where
  "template_literal v = (case to_string v of Some s \<Rightarrow> Val (JStr s) | None \<Rightarrow> Template v)"

text \<open>The heading (lines 112-114):
  \<^verbatim>\<open>{profileData.name ? `${profileData.name}` : "User Profile"}\<close>.\<close>

definition page_header :: "jsval \<Rightarrow> node" where
  "page_header profileData =
     Elem H1 None
       ''text-4xl md:text-5xl font-extrabold text-center mb-10 text-blue-900 capitalize tracking-tight''
       [if truthy (get_prop profileData ''name'')
        then template_literal (get_prop profileData ''name'')
        else Val (JStr ''User Profile'')]"

definition profile_page :: "jsval \<Rightarrow> node" where
  "profile_page profileData =
     Elem Div None ''min-h-screen bg-gradient-to-br from-blue-100 to-gray-200 p-6 md:p-10''
       [Elem Div None ''max-w-5xl mx-auto''
          [page_header profileData,
           card ''Personal Details'' (map (text_row profileData) personal_fields),
           card ''Exam Preferences'' (map (text_row profileData) exam_fields),
           card ''Experience'' (map (text_row profileData) experience_fields),
           card ''Documents''
             (map (document_row profileData) document_fields @ [aadhaar_row profileData]),
           card ''Bank Details'' (map (text_row profileData) bank_fields),
           card ''Health Declaration''
             (map (text_row profileData) health_fields @
              [agreement_row ''COVID Declaration Agreement''
                 (get_prop profileData ''covidDeclarationAgreement'')]),
           card ''Agreements''
             [agreement_row ''Penalty Clause Agreement''
                (get_prop profileData ''penaltyClauseAgreement'')]]]"

section \<open>The component: state, effects, fetch and render\<close>

text \<open>
  The two \<^verbatim>\<open>useState\<close> cells (lines 57-58). \<^verbatim>\<open>profileData\<close> starts as
  \<^verbatim>\<open>null\<close> and later holds whatever \<^verbatim>\<open>response.data\<close> was.
\<close>

record state =
  profileData :: jsval
  loading :: bool

definition initial_state :: state where
  "initial_state = \<lparr>profileData = JNull, loading = True\<rparr>"

text \<open>What the component does to the world outside its own state, in the order it does it.\<close>

record request =
  req_url :: string
  req_headers :: "(string \<times> string) list"

datatype effect =
    HttpGet request
  | ToastError jsval
  | RouterPush string

text \<open>
  The world the component reads: the cookie jar behind \<^verbatim>\<open>Cookies.get\<close>, and what
  \<^verbatim>\<open>axios.get\<close> does with a request. It resolves with the body of a 2xx response, or
  rejects with an error whose \<^verbatim>\<open>response\<close> is absent (nothing came back) or carries
  the status and the body.
\<close>

record http_response =
  resp_status :: int
  resp_data :: jsval

datatype axios_result =
    Fulfilled jsval
  | Rejected "http_response option"

record env =
  cookies :: "string \<rightharpoonup> string"
  axios_get :: "request \<Rightarrow> axios_result"

text \<open>\<^verbatim>\<open>Cookies.get(name)\<close>: the cookie's text, or \<^verbatim>\<open>undefined\<close>.\<close>

definition Cookies_get :: "env \<Rightarrow> string \<Rightarrow> string option" where
  "Cookies_get e name = cookies e name"

text \<open>\<^verbatim>\<open>err.response?.status\<close> and \<^verbatim>\<open>err.response?.data?.message\<close>.\<close>

definition err_status :: "http_response option \<Rightarrow> jsval" where
  "err_status response =
     (case response of None \<Rightarrow> JUndefined | Some r \<Rightarrow> JNum (of_int (resp_status r)))"

definition err_message :: "http_response option \<Rightarrow> jsval" where
  "err_message response =
     (case response of None \<Rightarrow> JUndefined | Some r \<Rightarrow> get_prop_opt (resp_data r) ''message'')"

text \<open>
  \<^verbatim>\<open>fetchUserData\<close> (lines 62-89). \<^verbatim>\<open>!token\<close> holds for
  \<^verbatim>\<open>undefined\<close> and for the empty text; otherwise the token is a non-empty text and
  \<^verbatim>\<open>`Bearer ${token}`\<close> appends it as it is. The \<^verbatim>\<open>finally\<close> block runs on
  every path, also after the early \<^verbatim>\<open>return\<close>, so every path ends with
  \<^verbatim>\<open>loading\<close> false.
\<close>

definition fetchUserData :: "env \<Rightarrow> state \<Rightarrow> state \<times> effect list" where
  "fetchUserData e s =
     (let s1 = s\<lparr>loading := True\<rparr>;
          (s2, effs) =
            (case Cookies_get e ''token'' of
               None \<Rightarrow> (s1, [RouterPush ''/login''])
             | Some token \<Rightarrow>
                 if token = [] then (s1, [RouterPush ''/login''])
                 else
                   (let req = \<lparr>req_url = ''/api/auth/signup'',
                               req_headers = [(''Authorization'', ''Bearer '' @ token)]\<rparr>
                    in case axios_get e req of
                         Fulfilled d \<Rightarrow> (s1\<lparr>profileData := d\<rparr>, [HttpGet req])
                       | Rejected response \<Rightarrow>
                           (if err_status response = JNum 401
                            then (s1, [HttpGet req,
                                       ToastError (JStr ''Session is over please login again.''),
                                       RouterPush ''/login''])
                            else (s1, [HttpGet req,
                                       ToastError (js_or (err_message response)
                                                     (JStr ''Data is not found''))]))))
      in (s2\<lparr>loading := False\<rparr>, effs))"

text \<open>
  The render body of \<^verbatim>\<open>Profile\<close> (lines 95-368): what it returns and the effects it
  has while rendering. In the no-record branch it calls \<^verbatim>\<open>toast.error\<close> and returns
  what that call returns: \<open>ToastReturn m\<close> stands for the value that
  \<^verbatim>\<open>toast.error(m)\<close> gave back, which is no element.
\<close>

datatype render_result =
    Rendered node
  | ToastReturn jsval

definition Profile :: "state \<Rightarrow> render_result \<times> effect list" where
  "Profile s =
     (if loading s then (Rendered loading_view, [])
      else if \<not> truthy (profileData s)
      then (ToastReturn (JStr ''Profile is not found.''),
            [ToastError (JStr ''Profile is not found.'')])
      else (Rendered (profile_page (profileData s)), []))"

text \<open>
  One activation of the view: the component renders with its initial state, the effect
  of \<^verbatim>\<open>useEffect\<close> runs \<^verbatim>\<open>fetchUserData\<close> once, and the state it leaves
  (\<^verbatim>\<open>loading\<close> has changed to false on every path) is rendered. The result is the
  final state, what the last render returned, and all effects in order.
\<close>

record activation =
  final_state :: state
  final_render :: render_result
  effects :: "effect list"

definition activate :: "env \<Rightarrow> activation" where
  "activate e =
     (let (r0, effs0) = Profile initial_state;
          (s, effs1) = fetchUserData e initial_state;
          (r, effs2) = Profile s
      in \<lparr>final_state = s, final_render = r, effects = effs0 @ effs1 @ effs2\<rparr>)"

section \<open>Observations\<close>

fun fetches :: "effect list \<Rightarrow> request list" where
  "fetches [] = []"
| "fetches (HttpGet r # es) = r # fetches es"
| "fetches (x # es) = fetches es"

fun notifications :: "effect list \<Rightarrow> jsval list" where
  "notifications [] = []"
| "notifications (ToastError m # es) = m # notifications es"
| "notifications (x # es) = notifications es"

fun redirects :: "effect list \<Rightarrow> string list" where
  "redirects [] = []"
| "redirects (RouterPush p # es) = p # redirects es"
| "redirects (x # es) = redirects es"

text \<open>A row seen as (label, class of the span, value shown in the span).\<close>

definition row_view :: "node \<Rightarrow> (string \<times> string \<times> jsval) option" where
  "row_view n =
     (case n of
        Elem t k c [Elem Label lk lc [Val (JStr l)], Elem Div ck cc [Elem Span sk sc [Val v]]] \<Rightarrow>
          Some (l, sc, v)
      | _ \<Rightarrow> None)"

text \<open>A card seen as (title, rows).\<close>

definition card_view :: "node \<Rightarrow> (string \<times> (string \<times> string \<times> jsval) list) option" where
  "card_view n =
     (case n of
        Elem Card k c [Elem CardHeader hk hc [Elem CardTitle tk tc [Val (JStr title)]],
                       Elem CardContent ck cc rows] \<Rightarrow>
          map_option (Pair title) (those (map row_view rows))
      | _ \<Rightarrow> None)"

text \<open>The page seen as the child of its heading and the list of its cards.\<close>

definition page_view ::
  "render_result \<Rightarrow> (node \<times> (string \<times> (string \<times> string \<times> jsval) list) list) option" where
  "page_view r =
     (case r of
        Rendered (Elem Div k c [Elem Div k' c' (Elem H1 hk hc [h] # cards)]) \<Rightarrow>
          map_option (Pair h) (those (map card_view cards))
      | _ \<Rightarrow> None)"


definition page_groups ::
  "render_result \<Rightarrow> (string \<times> (string \<times> string \<times> jsval) list) list option" where
  "page_groups r = map_option snd (page_view r)"

text \<open>The span class and the value shown in the row that carries a given label.\<close>

definition shown_for :: "render_result \<Rightarrow> string \<Rightarrow> (string \<times> jsval) option" where
  "shown_for r lbl =
     (case page_groups r of None \<Rightarrow> None | Some gs \<Rightarrow> map_of (concat (map snd gs)) lbl)"

text \<open>All text fields of the page: the five mapped text tables and the Aadhaar row.\<close>

definition text_fields :: "(string \<times> string) list" where
  "text_fields =
     personal_fields @ exam_fields @ experience_fields @ [(''aadhaarNo'', ''Aadhaar No.'')] @
     bank_fields @ health_fields"

text \<open>Every key that the page reads from the record.\<close>

definition fixed_keys :: "string list" where
  "fixed_keys =
     map fst text_fields @ map fst document_fields @
     [''covidDeclarationAgreement'', ''penaltyClauseAgreement'']"

text \<open>A record with every field of the interface \<^verbatim>\<open>ProfileData\<close> present and non-empty.\<close>

definition full_record :: "(string \<times> jsval) list" where
  "full_record =
     [(''name'', JStr ''Asha Rao''),
      (''email'', JStr ''asha@example.org''),
      (''dob'', JStr ''1990-04-12''),
      (''phone'', JStr ''9876543210''),
      (''area'', JStr ''Sector 5''),
      (''landmark'', JStr ''Near Park''),
      (''address'', JStr ''12 Lake Road''),
      (''examCityPreference1'', JStr ''Pune''),
      (''examCityPreference2'', JStr ''Mumbai''),
      (''previousCdaExperience'', JStr ''yes''),
      (''cdaExperienceYears'', JStr ''3''),
      (''cdaExperienceRole'', JStr ''Invigilator''),
      (''photo'', JStr ''photo.png''),
      (''signature'', JStr ''sign.png''),
      (''thumbprint'', JStr ''thumb.png''),
      (''aadhaarNo'', JStr ''123412341234''),
      (''penaltyClauseAgreement'', JBool True),
      (''fever'', JStr ''no''),
      (''cough'', JStr ''no''),
      (''breathlessness'', JStr ''no''),
      (''soreThroat'', JStr ''no''),
      (''otherSymptoms'', JStr ''no''),
      (''otherSymptomsDetails'', JStr ''none''),
      (''closeContact'', JStr ''no''),
      (''covidDeclarationAgreement'', JBool True),
      (''accountHolderName'', JStr ''Asha Rao''),
      (''bankName'', JStr ''State Bank''),
      (''ifsc'', JStr ''SBIN0001234''),
      (''branch'', JStr ''Main''),
      (''bankAccountNo'', JStr ''00112233''),
      (''currentDate'', JStr ''2024-01-01''),
      (''sonOf'', JStr ''R. Rao''),
      (''resident'', JStr ''Pune'')]"

section \<open>What the observations see in the page\<close>

lemma row_view_row [simp]: "row_view (row k lbl c v) = Some (lbl, c, v)"
  by (simp add: row_view_def row_def)

lemma card_view_card [simp]:
  "card_view (card title rows) = map_option (Pair title) (those (map row_view rows))"
  by (simp add: card_view_def card_def)

lemma row_view_text_row [simp]:
  "row_view (text_row d (k, l)) = Some (l, text_span_class, js_or (get_prop d k) (JStr ''N/A''))"
  by (simp add: text_row_def)

lemma row_view_document_row [simp]:
  "row_view (document_row d (k, l)) =
     Some (l, flag_span_class (get_prop d k),
           if truthy (get_prop d k) then JStr ''Uploaded'' else JStr ''No file uploaded'')"
  by (simp add: document_row_def)

lemma row_view_aadhaar_row [simp]:
  "row_view (aadhaar_row d) =
     Some (''Aadhaar No.'', aadhaar_span_class, js_or (get_prop d ''aadhaarNo'') (JStr ''N/A''))"
  by (simp add: aadhaar_row_def)

lemma row_view_agreement_row [simp]:
  "row_view (agreement_row l v) =
     Some (l, flag_span_class v, if truthy v then JStr ''Yes'' else JStr ''No'')"
  by (simp add: agreement_row_def)

lemma page_view_profile_page:
  "page_view (Rendered (profile_page d)) =
     Some (if truthy (get_prop d ''name'') then template_literal (get_prop d ''name'')
           else Val (JStr ''User Profile''),
       [(''Personal Details'',
          [(''Full Name'', text_span_class, js_or (get_prop d ''name'') (JStr ''N/A'')),
           (''Email'', text_span_class, js_or (get_prop d ''email'') (JStr ''N/A'')),
           (''Date of Birth'', text_span_class, js_or (get_prop d ''dob'') (JStr ''N/A'')),
           (''Phone'', text_span_class, js_or (get_prop d ''phone'') (JStr ''N/A'')),
           (''Area'', text_span_class, js_or (get_prop d ''area'') (JStr ''N/A'')),
           (''Landmark'', text_span_class, js_or (get_prop d ''landmark'') (JStr ''N/A'')),
           (''Address'', text_span_class, js_or (get_prop d ''address'') (JStr ''N/A'')),
           (''Son/Daughter Of'', text_span_class, js_or (get_prop d ''sonOf'') (JStr ''N/A'')),
           (''Resident Of'', text_span_class, js_or (get_prop d ''resident'') (JStr ''N/A''))]),
        (''Exam Preferences'',
          [(''Exam City Preference 1'', text_span_class,
              js_or (get_prop d ''examCityPreference1'') (JStr ''N/A'')),
           (''Exam City Preference 2'', text_span_class,
              js_or (get_prop d ''examCityPreference2'') (JStr ''N/A''))]),
        (''Experience'',
          [(''Previous CDAC Experience'', text_span_class,
              js_or (get_prop d ''previousCdaExperience'') (JStr ''N/A'')),
           (''Years of Experience'', text_span_class,
              js_or (get_prop d ''cdaExperienceYears'') (JStr ''N/A'')),
           (''Role in CDA'', text_span_class,
              js_or (get_prop d ''cdaExperienceRole'') (JStr ''N/A''))]),
        (''Documents'',
          [(''Photo'', flag_span_class (get_prop d ''photo''),
              if truthy (get_prop d ''photo'') then JStr ''Uploaded'' else JStr ''No file uploaded''),
           (''Signature'', flag_span_class (get_prop d ''signature''),
              if truthy (get_prop d ''signature'') then JStr ''Uploaded''
              else JStr ''No file uploaded''),
           (''Thumbprint'', flag_span_class (get_prop d ''thumbprint''),
              if truthy (get_prop d ''thumbprint'') then JStr ''Uploaded''
              else JStr ''No file uploaded''),
           (''Aadhaar No.'', aadhaar_span_class, js_or (get_prop d ''aadhaarNo'') (JStr ''N/A''))]),
        (''Bank Details'',
          [(''Account Holder Name'', text_span_class,
              js_or (get_prop d ''accountHolderName'') (JStr ''N/A'')),
           (''Bank Name'', text_span_class, js_or (get_prop d ''bankName'') (JStr ''N/A'')),
           (''IFSC Code'', text_span_class, js_or (get_prop d ''ifsc'') (JStr ''N/A'')),
           (''Branch'', text_span_class, js_or (get_prop d ''branch'') (JStr ''N/A'')),
           (''Bank Account No.'', text_span_class,
              js_or (get_prop d ''bankAccountNo'') (JStr ''N/A''))]),
        (''Health Declaration'',
          [(''Fever'', text_span_class, js_or (get_prop d ''fever'') (JStr ''N/A'')),
           (''Cough'', text_span_class, js_or (get_prop d ''cough'') (JStr ''N/A'')),
           (''Breathlessness'', text_span_class,
              js_or (get_prop d ''breathlessness'') (JStr ''N/A'')),
           (''Sore Throat'', text_span_class, js_or (get_prop d ''soreThroat'') (JStr ''N/A'')),
           (''Other Symptoms'', text_span_class,
              js_or (get_prop d ''otherSymptoms'') (JStr ''N/A'')),
           (''Other Symptoms Details'', text_span_class,
              js_or (get_prop d ''otherSymptomsDetails'') (JStr ''N/A'')),
           (''Close Contact with COVID Case'', text_span_class,
              js_or (get_prop d ''closeContact'') (JStr ''N/A'')),
           (''COVID Declaration Agreement'',
              flag_span_class (get_prop d ''covidDeclarationAgreement''),
              if truthy (get_prop d ''covidDeclarationAgreement'') then JStr ''Yes''
              else JStr ''No'')]),
        (''Agreements'',
          [(''Penalty Clause Agreement'',
              flag_span_class (get_prop d ''penaltyClauseAgreement''),
              if truthy (get_prop d ''penaltyClauseAgreement'') then JStr ''Yes''
              else JStr ''No'')])])"
  by (simp add: page_view_def profile_page_def page_header_def personal_fields_def
      exam_fields_def experience_fields_def document_fields_def bank_fields_def
      health_fields_def del: get_prop.simps)

lemma Profile_record:
  "Profile \<lparr>profileData = JObj kvs, loading = False\<rparr> = (Rendered (profile_page (JObj kvs)), [])"
  by (simp add: Profile_def)

lemma shown_for_text_fields:
  "\<forall>(k, l) \<in> set text_fields.
     shown_for (Rendered (profile_page d)) l =
       Some (if k = ''aadhaarNo'' then aadhaar_span_class else text_span_class,
             js_or (get_prop d k) (JStr ''N/A''))"
  unfolding text_fields_def personal_fields_def exam_fields_def experience_fields_def
    bank_fields_def health_fields_def
  by (simp add: shown_for_def page_groups_def page_view_profile_page del: get_prop.simps)

section \<open>The placeholder of the text fields\<close>

text \<open>
  Claim C1. For every text field of every display group (the five mapped text tables and
  the Aadhaar row), the value shown in the field's row of the rendered record is the
  field's value when that value is truthy, and the string \<^verbatim>\<open>N/A\<close> when it is
  \<^verbatim>\<open>undefined\<close> (also: the key is missing), \<^verbatim>\<open>null\<close>, \<^verbatim>\<open>false\<close>,
  \<^verbatim>\<open>0\<close> or the empty string.
\<close>

theorem text_field_placeholder:
  assumes "(k, l) \<in> set text_fields"
  shows "let v = get_prop (JObj kvs) k;
             shown = map_option snd
               (shown_for (fst (Profile \<lparr>profileData = JObj kvs, loading = False\<rparr>)) l)
         in shown = Some (if truthy v then v else JStr ''N/A'') \<and>
            (v \<in> {JUndefined, JNull, JBool False, JNum 0, JStr []} \<longrightarrow>
               shown = Some (JStr ''N/A''))"
proof -
  from assms shown_for_text_fields [of "JObj kvs"]
  have "map_option snd (shown_for (Rendered (profile_page (JObj kvs))) l) =
        Some (js_or (get_prop (JObj kvs) k) (JStr ''N/A''))"
    by fastforce
  then have *: "map_option snd
          (shown_for (fst (Profile \<lparr>profileData = JObj kvs, loading = False\<rparr>)) l) =
        Some (js_or (get_prop (JObj kvs) k) (JStr ''N/A''))"
    by (simp only: Profile_record fst_conv)
  show ?thesis
    unfolding Let_def * js_or_def
    by (auto simp del: get_prop.simps)
qed

theorem text_field_placeholder_witness:
  "(''email'', ''Email'') \<in> set text_fields \<and>
   map_option snd
     (shown_for (fst (Profile \<lparr>profileData = JObj [(''name'', JStr ''Asha''), (''phone'', JNum 0)],
                              loading = False\<rparr>)) ''Email'') = Some (JStr ''N/A'') \<and>
   (''name'', ''Full Name'') \<in> set text_fields \<and>
   map_option snd
     (shown_for (fst (Profile \<lparr>profileData = JObj [(''name'', JStr ''Asha''), (''phone'', JNum 0)],
                              loading = False\<rparr>)) ''Full Name'') = Some (JStr ''Asha'') \<and>
   (''phone'', ''Phone'') \<in> set text_fields \<and>
   map_option snd
     (shown_for (fst (Profile \<lparr>profileData = JObj [(''name'', JStr ''Asha''), (''phone'', JNum 0)],
                              loading = False\<rparr>)) ''Phone'') = Some (JStr ''N/A'')"
proof -
  have e: "(''email'', ''Email'') \<in> set text_fields"
    and n: "(''name'', ''Full Name'') \<in> set text_fields"
    and p: "(''phone'', ''Phone'') \<in> set text_fields"
    by (simp_all add: text_fields_def personal_fields_def)
  show ?thesis
    using e n p
      text_field_placeholder [OF e, of "[(''name'', JStr ''Asha''), (''phone'', JNum 0)]"]
      text_field_placeholder [OF n, of "[(''name'', JStr ''Asha''), (''phone'', JNum 0)]"]
      text_field_placeholder [OF p, of "[(''name'', JStr ''Asha''), (''phone'', JNum 0)]"]
    by (simp add: Let_def)
qed

section \<open>The document flags\<close>

lemma shown_for_document_fields:
  "\<forall>(k, l) \<in> set document_fields.
     shown_for (Rendered (profile_page d)) l =
       Some (flag_span_class (get_prop d k),
             if truthy (get_prop d k) then JStr ''Uploaded'' else JStr ''No file uploaded'')"
  unfolding document_fields_def
  by (simp add: shown_for_def page_groups_def page_view_profile_page del: get_prop.simps)

text \<open>
  Claim C6. For each of the three document fields (photo, signature, thumbprint) of any
  record, the row shows \<^verbatim>\<open>Uploaded\<close> on the green background when the field's value
  is truthy, and \<^verbatim>\<open>No file uploaded\<close> on the red background when it is falsy.
\<close>

theorem document_presence_flags:
  assumes "(k, l) \<in> set document_fields"
  shows "shown_for (fst (Profile \<lparr>profileData = JObj kvs, loading = False\<rparr>)) l =
           Some (if truthy (get_prop (JObj kvs) k)
                 then (''text-gray-800 px-3 py-1 rounded-md text-base font-medium bg-green-100'',
                       JStr ''Uploaded'')
                 else (''text-gray-800 px-3 py-1 rounded-md text-base font-medium bg-red-100'',
                       JStr ''No file uploaded''))"
proof -
  from assms shown_for_document_fields [of "JObj kvs"]
  have "shown_for (Rendered (profile_page (JObj kvs))) l =
          Some (flag_span_class (get_prop (JObj kvs) k),
                if truthy (get_prop (JObj kvs) k) then JStr ''Uploaded''
                else JStr ''No file uploaded'')"
    by fastforce
  then show ?thesis
    by (simp add: Profile_record flag_span_class_def del: get_prop.simps)
qed

theorem document_presence_flags_witness:
  "shown_for (fst (Profile \<lparr>profileData = JObj [(''photo'', JObj []), (''signature'', JNull)],
                           loading = False\<rparr>)) ''Photo'' =
     Some (''text-gray-800 px-3 py-1 rounded-md text-base font-medium bg-green-100'',
           JStr ''Uploaded'') \<and>
   shown_for (fst (Profile \<lparr>profileData = JObj [(''photo'', JObj []), (''signature'', JNull)],
                           loading = False\<rparr>)) ''Signature'' =
     Some (''text-gray-800 px-3 py-1 rounded-md text-base font-medium bg-red-100'',
           JStr ''No file uploaded'') \<and>
   shown_for (fst (Profile \<lparr>profileData = JObj [(''photo'', JObj []), (''signature'', JNull)],
                           loading = False\<rparr>)) ''Thumbprint'' =
     Some (''text-gray-800 px-3 py-1 rounded-md text-base font-medium bg-red-100'',
           JStr ''No file uploaded'')"
proof -
  have p: "(''photo'', ''Photo'') \<in> set document_fields"
    and s: "(''signature'', ''Signature'') \<in> set document_fields"
    and t: "(''thumbprint'', ''Thumbprint'') \<in> set document_fields"
    by (simp_all add: document_fields_def)
  show ?thesis
    using document_presence_flags [OF p, of "[(''photo'', JObj []), (''signature'', JNull)]"]
      document_presence_flags [OF s, of "[(''photo'', JObj []), (''signature'', JNull)]"]
      document_presence_flags [OF t, of "[(''photo'', JObj []), (''signature'', JNull)]"]
    by simp
qed

section \<open>The agreement flags\<close>

lemma shown_for_agreements:
  "shown_for (Rendered (profile_page d)) ''COVID Declaration Agreement'' =
     Some (flag_span_class (get_prop d ''covidDeclarationAgreement''),
           if truthy (get_prop d ''covidDeclarationAgreement'') then JStr ''Yes'' else JStr ''No'')"
  "shown_for (Rendered (profile_page d)) ''Penalty Clause Agreement'' =
     Some (flag_span_class (get_prop d ''penaltyClauseAgreement''),
           if truthy (get_prop d ''penaltyClauseAgreement'') then JStr ''Yes'' else JStr ''No'')"
  by (simp_all add: shown_for_def page_groups_def page_view_profile_page del: get_prop.simps)

text \<open>
  Claim C7. For both agreement fields (\<^verbatim>\<open>covidDeclarationAgreement\<close> and
  \<^verbatim>\<open>penaltyClauseAgreement\<close>) of any record, the row shows \<^verbatim>\<open>Yes\<close> on the
  green background when the value is truthy, so when it is \<^verbatim>\<open>true\<close>, and
  \<^verbatim>\<open>No\<close> on the red background when it is \<^verbatim>\<open>false\<close> or absent.
\<close>

theorem agreement_flags:
  assumes "(k, l) = (''covidDeclarationAgreement'', ''COVID Declaration Agreement'') \<or>
           (k, l) = (''penaltyClauseAgreement'', ''Penalty Clause Agreement'')"
  shows "let v = get_prop (JObj kvs) k;
             shown = shown_for (fst (Profile \<lparr>profileData = JObj kvs, loading = False\<rparr>)) l;
             yes = Some (''text-gray-800 px-3 py-1 rounded-md text-base font-medium bg-green-100'',
                         JStr ''Yes'');
             no = Some (''text-gray-800 px-3 py-1 rounded-md text-base font-medium bg-red-100'',
                        JStr ''No'')
         in shown = (if truthy v then yes else no) \<and>
            (v = JBool True \<longrightarrow> shown = yes) \<and>
            (v = JBool False \<or> v = JUndefined \<longrightarrow> shown = no)"
proof -
  have "shown_for (fst (Profile \<lparr>profileData = JObj kvs, loading = False\<rparr>)) l =
          Some (flag_span_class (get_prop (JObj kvs) k),
                if truthy (get_prop (JObj kvs) k) then JStr ''Yes'' else JStr ''No'')"
    using assms by (auto simp add: Profile_record shown_for_agreements simp del: get_prop.simps)
  then show ?thesis
    by (auto simp add: Let_def flag_span_class_def simp del: get_prop.simps)
qed

theorem agreement_flags_witness:
  "shown_for (fst (Profile \<lparr>profileData = JObj [(''covidDeclarationAgreement'', JBool True)],
                           loading = False\<rparr>)) ''COVID Declaration Agreement'' =
     Some (''text-gray-800 px-3 py-1 rounded-md text-base font-medium bg-green-100'', JStr ''Yes'') \<and>
   shown_for (fst (Profile \<lparr>profileData = JObj [(''covidDeclarationAgreement'', JBool True)],
                           loading = False\<rparr>)) ''Penalty Clause Agreement'' =
     Some (''text-gray-800 px-3 py-1 rounded-md text-base font-medium bg-red-100'', JStr ''No'') \<and>
   shown_for (fst (Profile \<lparr>profileData = JObj [(''penaltyClauseAgreement'', JBool False)],
                           loading = False\<rparr>)) ''Penalty Clause Agreement'' =
     Some (''text-gray-800 px-3 py-1 rounded-md text-base font-medium bg-red-100'', JStr ''No'')"
  using
    agreement_flags [of "''covidDeclarationAgreement''" "''COVID Declaration Agreement''"
      "[(''covidDeclarationAgreement'', JBool True)]"]
    agreement_flags [of "''penaltyClauseAgreement''" "''Penalty Clause Agreement''"
      "[(''covidDeclarationAgreement'', JBool True)]"]
    agreement_flags [of "''penaltyClauseAgreement''" "''Penalty Clause Agreement''"
      "[(''penaltyClauseAgreement'', JBool False)]"]
  by (simp add: Let_def)

section \<open>The render without a record\<close>

text \<open>
  Claim C8. When the fetch is over (\<^verbatim>\<open>loading\<close> is false) and the profile state is
  \<^verbatim>\<open>null\<close>, the render calls \<^verbatim>\<open>toast.error("Profile is not found.")\<close> and
  returns what that call returns: the render has the notification as its effect, and its
  result is no element.
\<close>

theorem no_record_render:
  assumes "profileData s = JNull" and "\<not> loading s"
  shows "Profile s = (ToastReturn (JStr ''Profile is not found.''),
                      [ToastError (JStr ''Profile is not found.'')]) \<and>
         (\<forall>n. fst (Profile s) \<noteq> Rendered n)"
  using assms by (simp add: Profile_def)

theorem no_record_render_witness:
  "Profile \<lparr>profileData = JNull, loading = False\<rparr> =
     (ToastReturn (JStr ''Profile is not found.''), [ToastError (JStr ''Profile is not found.'')]) \<and>
   notifications (snd (Profile \<lparr>profileData = JNull, loading = False\<rparr>)) =
     [JStr ''Profile is not found.'']"
  using no_record_render [of "\<lparr>profileData = JNull, loading = False\<rparr>"]
  by simp

section \<open>The heading\<close>




section \<open>Fields the page does not know\<close>

text \<open>
  Claim C9. The render reads the record only at the fixed keys of the display groups:
  two records that agree on those keys render the same, whatever other fields they hold.
\<close>

theorem unknown_fields_ignored:
  assumes "\<forall>k \<in> set fixed_keys. get_prop (JObj a) k = get_prop (JObj b) k"
  shows "Profile \<lparr>profileData = JObj a, loading = l\<rparr> =
         Profile \<lparr>profileData = JObj b, loading = l\<rparr>"
proof -
  have "profile_page (JObj a) = profile_page (JObj b)"
    using assms
    unfolding fixed_keys_def text_fields_def personal_fields_def exam_fields_def
      experience_fields_def document_fields_def bank_fields_def health_fields_def
    by (simp add: profile_page_def page_header_def text_row_def document_row_def
        aadhaar_row_def personal_fields_def exam_fields_def experience_fields_def
        document_fields_def bank_fields_def health_fields_def del: get_prop.simps)
  then show ?thesis
    by (simp add: Profile_def)
qed

theorem unknown_fields_ignored_witness:
  "Profile \<lparr>profileData = JObj [(''name'', JStr ''Asha''), (''role'', JStr ''admin'')],
            loading = False\<rparr> =
   Profile \<lparr>profileData = JObj [(''extra'', JNum 7), (''name'', JStr ''Asha'')],
            loading = False\<rparr> \<and>
   get_prop (JObj [(''name'', JStr ''Asha''), (''role'', JStr ''admin'')]) ''role'' \<noteq>
   get_prop (JObj [(''extra'', JNum 7), (''name'', JStr ''Asha'')]) ''role''"
proof -
  have "\<forall>k \<in> set fixed_keys.
          get_prop (JObj [(''name'', JStr ''Asha''), (''role'', JStr ''admin'')]) k =
          get_prop (JObj [(''extra'', JNum 7), (''name'', JStr ''Asha'')]) k"
    unfolding fixed_keys_def text_fields_def personal_fields_def exam_fields_def
      experience_fields_def document_fields_def bank_fields_def health_fields_def
    by simp
  from unknown_fields_ignored [OF this, of False] show ?thesis
    by simp
qed

section \<open>A complete record\<close>

lemma full_record_page_groups:
  assumes "\<forall>k \<in> set (map fst text_fields). truthy (get_prop (JObj kvs) k)"
  shows "page_groups (fst (Profile \<lparr>profileData = JObj kvs, loading = False\<rparr>)) =
     Some
       [(''Personal Details'',
          [(''Full Name'', text_span_class, get_prop (JObj kvs) ''name''),
           (''Email'', text_span_class, get_prop (JObj kvs) ''email''),
           (''Date of Birth'', text_span_class, get_prop (JObj kvs) ''dob''),
           (''Phone'', text_span_class, get_prop (JObj kvs) ''phone''),
           (''Area'', text_span_class, get_prop (JObj kvs) ''area''),
           (''Landmark'', text_span_class, get_prop (JObj kvs) ''landmark''),
           (''Address'', text_span_class, get_prop (JObj kvs) ''address''),
           (''Son/Daughter Of'', text_span_class, get_prop (JObj kvs) ''sonOf''),
           (''Resident Of'', text_span_class, get_prop (JObj kvs) ''resident'')]),
        (''Exam Preferences'',
          [(''Exam City Preference 1'', text_span_class, get_prop (JObj kvs) ''examCityPreference1''),
           (''Exam City Preference 2'', text_span_class, get_prop (JObj kvs) ''examCityPreference2'')]),
        (''Experience'',
          [(''Previous CDAC Experience'', text_span_class, get_prop (JObj kvs) ''previousCdaExperience''),
           (''Years of Experience'', text_span_class, get_prop (JObj kvs) ''cdaExperienceYears''),
           (''Role in CDA'', text_span_class, get_prop (JObj kvs) ''cdaExperienceRole'')]),
        (''Documents'',
          [(''Photo'', flag_span_class (get_prop (JObj kvs) ''photo''),
              if truthy (get_prop (JObj kvs) ''photo'') then JStr ''Uploaded'' else JStr ''No file uploaded''),
           (''Signature'', flag_span_class (get_prop (JObj kvs) ''signature''),
              if truthy (get_prop (JObj kvs) ''signature'') then JStr ''Uploaded'' else JStr ''No file uploaded''),
           (''Thumbprint'', flag_span_class (get_prop (JObj kvs) ''thumbprint''),
              if truthy (get_prop (JObj kvs) ''thumbprint'') then JStr ''Uploaded'' else JStr ''No file uploaded''),
           (''Aadhaar No.'', aadhaar_span_class, get_prop (JObj kvs) ''aadhaarNo'')]),
        (''Bank Details'',
          [(''Account Holder Name'', text_span_class, get_prop (JObj kvs) ''accountHolderName''),
           (''Bank Name'', text_span_class, get_prop (JObj kvs) ''bankName''),
           (''IFSC Code'', text_span_class, get_prop (JObj kvs) ''ifsc''),
           (''Branch'', text_span_class, get_prop (JObj kvs) ''branch''),
           (''Bank Account No.'', text_span_class, get_prop (JObj kvs) ''bankAccountNo'')]),
        (''Health Declaration'',
          [(''Fever'', text_span_class, get_prop (JObj kvs) ''fever''),
           (''Cough'', text_span_class, get_prop (JObj kvs) ''cough''),
           (''Breathlessness'', text_span_class, get_prop (JObj kvs) ''breathlessness''),
           (''Sore Throat'', text_span_class, get_prop (JObj kvs) ''soreThroat''),
           (''Other Symptoms'', text_span_class, get_prop (JObj kvs) ''otherSymptoms''),
           (''Other Symptoms Details'', text_span_class, get_prop (JObj kvs) ''otherSymptomsDetails''),
           (''Close Contact with COVID Case'', text_span_class, get_prop (JObj kvs) ''closeContact''),
           (''COVID Declaration Agreement'', flag_span_class (get_prop (JObj kvs) ''covidDeclarationAgreement''),
              if truthy (get_prop (JObj kvs) ''covidDeclarationAgreement'') then JStr ''Yes'' else JStr ''No'')]),
        (''Agreements'',
          [(''Penalty Clause Agreement'', flag_span_class (get_prop (JObj kvs) ''penaltyClauseAgreement''),
              if truthy (get_prop (JObj kvs) ''penaltyClauseAgreement'') then JStr ''Yes'' else JStr ''No'')])]"
  using assms
  unfolding text_fields_def personal_fields_def exam_fields_def experience_fields_def
    bank_fields_def health_fields_def
  by (simp add: js_or_def page_groups_def Profile_record page_view_profile_page
      del: get_prop.simps)

text \<open>
  Claim C5. At an activation with a token where the request is fulfilled with a record
  whose text fields are all present and non-empty, the record becomes the profile state,
  the one request is the only effect, and the rendered page has exactly seven groups, in
  the order Personal Details, Exam Preferences, Experience, Documents, Bank Details, Health
  Declaration, Agreements; each group has its fixed rows (label and field key) in the
  order of the source, and every text row shows the value of its field as it was received.
\<close>

theorem full_record_groups:
  assumes "cookies e ''token'' = Some t" and "t \<noteq> []"
    and "axios_get e \<lparr>req_url = ''/api/auth/signup'',
                       req_headers = [(''Authorization'', ''Bearer '' @ t)]\<rparr> =
           Fulfilled (JObj kvs)"
    and "\<forall>k \<in> set (map fst text_fields). truthy (get_prop (JObj kvs) k)"
  shows "final_state (activate e) = \<lparr>profileData = JObj kvs, loading = False\<rparr> \<and>
     effects (activate e) =
       [HttpGet \<lparr>req_url = ''/api/auth/signup'',
                 req_headers = [(''Authorization'', ''Bearer '' @ t)]\<rparr>] \<and>
     page_groups (final_render (activate e)) =
     Some
       [(''Personal Details'',
          [(''Full Name'', text_span_class, get_prop (JObj kvs) ''name''),
           (''Email'', text_span_class, get_prop (JObj kvs) ''email''),
           (''Date of Birth'', text_span_class, get_prop (JObj kvs) ''dob''),
           (''Phone'', text_span_class, get_prop (JObj kvs) ''phone''),
           (''Area'', text_span_class, get_prop (JObj kvs) ''area''),
           (''Landmark'', text_span_class, get_prop (JObj kvs) ''landmark''),
           (''Address'', text_span_class, get_prop (JObj kvs) ''address''),
           (''Son/Daughter Of'', text_span_class, get_prop (JObj kvs) ''sonOf''),
           (''Resident Of'', text_span_class, get_prop (JObj kvs) ''resident'')]),
        (''Exam Preferences'',
          [(''Exam City Preference 1'', text_span_class, get_prop (JObj kvs) ''examCityPreference1''),
           (''Exam City Preference 2'', text_span_class, get_prop (JObj kvs) ''examCityPreference2'')]),
        (''Experience'',
          [(''Previous CDAC Experience'', text_span_class, get_prop (JObj kvs) ''previousCdaExperience''),
           (''Years of Experience'', text_span_class, get_prop (JObj kvs) ''cdaExperienceYears''),
           (''Role in CDA'', text_span_class, get_prop (JObj kvs) ''cdaExperienceRole'')]),
        (''Documents'',
          [(''Photo'', flag_span_class (get_prop (JObj kvs) ''photo''),
              if truthy (get_prop (JObj kvs) ''photo'') then JStr ''Uploaded'' else JStr ''No file uploaded''),
           (''Signature'', flag_span_class (get_prop (JObj kvs) ''signature''),
              if truthy (get_prop (JObj kvs) ''signature'') then JStr ''Uploaded'' else JStr ''No file uploaded''),
           (''Thumbprint'', flag_span_class (get_prop (JObj kvs) ''thumbprint''),
              if truthy (get_prop (JObj kvs) ''thumbprint'') then JStr ''Uploaded'' else JStr ''No file uploaded''),
           (''Aadhaar No.'', aadhaar_span_class, get_prop (JObj kvs) ''aadhaarNo'')]),
        (''Bank Details'',
          [(''Account Holder Name'', text_span_class, get_prop (JObj kvs) ''accountHolderName''),
           (''Bank Name'', text_span_class, get_prop (JObj kvs) ''bankName''),
           (''IFSC Code'', text_span_class, get_prop (JObj kvs) ''ifsc''),
           (''Branch'', text_span_class, get_prop (JObj kvs) ''branch''),
           (''Bank Account No.'', text_span_class, get_prop (JObj kvs) ''bankAccountNo'')]),
        (''Health Declaration'',
          [(''Fever'', text_span_class, get_prop (JObj kvs) ''fever''),
           (''Cough'', text_span_class, get_prop (JObj kvs) ''cough''),
           (''Breathlessness'', text_span_class, get_prop (JObj kvs) ''breathlessness''),
           (''Sore Throat'', text_span_class, get_prop (JObj kvs) ''soreThroat''),
           (''Other Symptoms'', text_span_class, get_prop (JObj kvs) ''otherSymptoms''),
           (''Other Symptoms Details'', text_span_class, get_prop (JObj kvs) ''otherSymptomsDetails''),
           (''Close Contact with COVID Case'', text_span_class, get_prop (JObj kvs) ''closeContact''),
           (''COVID Declaration Agreement'', flag_span_class (get_prop (JObj kvs) ''covidDeclarationAgreement''),
              if truthy (get_prop (JObj kvs) ''covidDeclarationAgreement'') then JStr ''Yes'' else JStr ''No'')]),
        (''Agreements'',
          [(''Penalty Clause Agreement'', flag_span_class (get_prop (JObj kvs) ''penaltyClauseAgreement''),
              if truthy (get_prop (JObj kvs) ''penaltyClauseAgreement'') then JStr ''Yes'' else JStr ''No'')])]"
proof -
  have "activate e =
          \<lparr>final_state = \<lparr>profileData = JObj kvs, loading = False\<rparr>,
           final_render = fst (Profile \<lparr>profileData = JObj kvs, loading = False\<rparr>),
           effects = [HttpGet \<lparr>req_url = ''/api/auth/signup'',
                               req_headers = [(''Authorization'', ''Bearer '' @ t)]\<rparr>]\<rparr>"
    using assms(1-3)
    by (simp add: activate_def fetchUserData_def Profile_def initial_state_def Cookies_get_def)
  then show ?thesis
    using full_record_page_groups [OF assms(4)] by simp
qed

theorem full_record_groups_witness:
  "final_state (activate \<lparr>cookies = [''token'' \<mapsto> ''abc''],
                           axios_get = (\<lambda>req. Fulfilled (JObj full_record))\<rparr>) =
     \<lparr>profileData = JObj full_record, loading = False\<rparr> \<and>
   notifications (effects (activate \<lparr>cookies = [''token'' \<mapsto> ''abc''],
                           axios_get = (\<lambda>req. Fulfilled (JObj full_record))\<rparr>)) = [] \<and>
   page_groups (final_render (activate \<lparr>cookies = [''token'' \<mapsto> ''abc''],
                           axios_get = (\<lambda>req. Fulfilled (JObj full_record))\<rparr>)) =
     Some
       [(''Personal Details'',
          [(''Full Name'', text_span_class, JStr ''Asha Rao''),
           (''Email'', text_span_class, JStr ''asha@example.org''),
           (''Date of Birth'', text_span_class, JStr ''1990-04-12''),
           (''Phone'', text_span_class, JStr ''9876543210''),
           (''Area'', text_span_class, JStr ''Sector 5''),
           (''Landmark'', text_span_class, JStr ''Near Park''),
           (''Address'', text_span_class, JStr ''12 Lake Road''),
           (''Son/Daughter Of'', text_span_class, JStr ''R. Rao''),
           (''Resident Of'', text_span_class, JStr ''Pune'')]),
        (''Exam Preferences'',
          [(''Exam City Preference 1'', text_span_class, JStr ''Pune''),
           (''Exam City Preference 2'', text_span_class, JStr ''Mumbai'')]),
        (''Experience'',
          [(''Previous CDAC Experience'', text_span_class, JStr ''yes''),
           (''Years of Experience'', text_span_class, JStr ''3''),
           (''Role in CDA'', text_span_class, JStr ''Invigilator'')]),
        (''Documents'',
          [(''Photo'', ''text-gray-800 px-3 py-1 rounded-md text-base font-medium bg-green-100'',
              JStr ''Uploaded''),
           (''Signature'', ''text-gray-800 px-3 py-1 rounded-md text-base font-medium bg-green-100'',
              JStr ''Uploaded''),
           (''Thumbprint'', ''text-gray-800 px-3 py-1 rounded-md text-base font-medium bg-green-100'',
              JStr ''Uploaded''),
           (''Aadhaar No.'', aadhaar_span_class, JStr ''123412341234'')]),
        (''Bank Details'',
          [(''Account Holder Name'', text_span_class, JStr ''Asha Rao''),
           (''Bank Name'', text_span_class, JStr ''State Bank''),
           (''IFSC Code'', text_span_class, JStr ''SBIN0001234''),
           (''Branch'', text_span_class, JStr ''Main''),
           (''Bank Account No.'', text_span_class, JStr ''00112233'')]),
        (''Health Declaration'',
          [(''Fever'', text_span_class, JStr ''no''),
           (''Cough'', text_span_class, JStr ''no''),
           (''Breathlessness'', text_span_class, JStr ''no''),
           (''Sore Throat'', text_span_class, JStr ''no''),
           (''Other Symptoms'', text_span_class, JStr ''no''),
           (''Other Symptoms Details'', text_span_class, JStr ''none''),
           (''Close Contact with COVID Case'', text_span_class, JStr ''no''),
           (''COVID Declaration Agreement'', ''text-gray-800 px-3 py-1 rounded-md text-base font-medium bg-green-100'',
              JStr ''Yes'')]),
        (''Agreements'',
          [(''Penalty Clause Agreement'', ''text-gray-800 px-3 py-1 rounded-md text-base font-medium bg-green-100'',
              JStr ''Yes'')])]"
proof -
  let ?e = "\<lparr>cookies = [''token'' \<mapsto> ''abc''],
             axios_get = (\<lambda>req. Fulfilled (JObj full_record))\<rparr>"
  have full: "\<forall>k \<in> set (map fst text_fields). truthy (get_prop (JObj full_record) k)"
    unfolding text_fields_def personal_fields_def exam_fields_def experience_fields_def
      bank_fields_def health_fields_def full_record_def
    by simp
  have "cookies ?e ''token'' = Some ''abc''" and "''abc'' \<noteq> []"
    and "axios_get ?e \<lparr>req_url = ''/api/auth/signup'',
                        req_headers = [(''Authorization'', ''Bearer '' @ ''abc'')]\<rparr> =
           Fulfilled (JObj full_record)"
    by simp_all
  from full_record_groups [OF this full] show ?thesis
    by (simp add: full_record_def flag_span_class_def)
qed

section \<open>Activations\<close>

lemmas activate_simps =
  activate_def fetchUserData_def Profile_def initial_state_def Cookies_get_def
  err_status_def err_message_def js_or_def Let_def

lemma fetchUserData_no_token:
  assumes "cookies e ''token'' = None"
  shows "fetchUserData e s = (s\<lparr>loading := False\<rparr>, [RouterPush ''/login''])"
  using assms by (simp add: fetchUserData_def Cookies_get_def)

lemma fetchUserData_401:
  assumes "cookies e ''token'' = Some t" and "t \<noteq> []"
    and "axios_get e \<lparr>req_url = ''/api/auth/signup'',
                       req_headers = [(''Authorization'', ''Bearer '' @ t)]\<rparr> = Rejected (Some r)"
    and "resp_status r = 401"
  shows "fetchUserData e s =
           (s\<lparr>loading := False\<rparr>,
            [HttpGet \<lparr>req_url = ''/api/auth/signup'',
                      req_headers = [(''Authorization'', ''Bearer '' @ t)]\<rparr>,
             ToastError (JStr ''Session is over please login again.''),
             RouterPush ''/login''])"
  using assms by (simp add: fetchUserData_def Cookies_get_def err_status_def)

text \<open>
  Claim C2. An activation with no \<^verbatim>\<open>token\<close> cookie redirects to
  \<^verbatim>\<open>/login\<close> and sends no request. \<^verbatim>\<open>fetchUserData\<close> itself shows no
  notification there (\<open>fetchUserData_no_token\<close>), but it leaves \<^verbatim>\<open>loading\<close>
  false and the profile \<^verbatim>\<open>null\<close>, so the render that follows takes the no-record
  branch and shows the notification \<^verbatim>\<open>Profile is not found.\<close>: the activation as a
  whole shows one notification.
\<close>

theorem missing_credential_activation:
  "redirects (effects (activate \<lparr>cookies = Map.empty, axios_get = (\<lambda>req. Rejected None)\<rparr>)) =
     [''/login''] \<and>
   fetches (effects (activate \<lparr>cookies = Map.empty, axios_get = (\<lambda>req. Rejected None)\<rparr>)) = [] \<and>
   notifications (effects (activate \<lparr>cookies = Map.empty, axios_get = (\<lambda>req. Rejected None)\<rparr>)) =
     [JStr ''Profile is not found.'']"
  by (simp add: activate_simps)

text \<open>
  Claim C3. An activation with a token to which the backend answers 401 sends one request,
  shows the notification \<^verbatim>\<open>Session is over please login again.\<close> and redirects to
  \<^verbatim>\<open>/login\<close> (\<open>fetchUserData_401\<close>); the render that follows takes the
  no-record branch and shows \<^verbatim>\<open>Profile is not found.\<close> as well: the activation
  shows two notifications.
\<close>

theorem expired_credential_activation:
  "effects (activate \<lparr>cookies = [''token'' \<mapsto> ''abc''],
                      axios_get = (\<lambda>req. Rejected (Some \<lparr>resp_status = 401, resp_data = JNull\<rparr>))\<rparr>) =
     [HttpGet \<lparr>req_url = ''/api/auth/signup'', req_headers = [(''Authorization'', ''Bearer abc'')]\<rparr>,
      ToastError (JStr ''Session is over please login again.''),
      RouterPush ''/login'',
      ToastError (JStr ''Profile is not found.'')] \<and>
   length (notifications (effects (activate \<lparr>cookies = [''token'' \<mapsto> ''abc''],
                      axios_get = (\<lambda>req. Rejected (Some \<lparr>resp_status = 401, resp_data = JNull\<rparr>))\<rparr>))) = 2"
  by (simp add: activate_simps)

text \<open>
  What a failure's message is: the \<^verbatim>\<open>message\<close> property of the error body, and
  \<^verbatim>\<open>undefined\<close> when there is no response or no body.
\<close>

lemma err_message_cases:
  "err_message None = JUndefined"
  "err_message (Some \<lparr>resp_status = n, resp_data = JUndefined\<rparr>) = JUndefined"
  "err_message (Some \<lparr>resp_status = n, resp_data = JObj body\<rparr>) = get_prop (JObj body) ''message''"
  by (simp_all add: err_message_def)

text \<open>
  A failure with status 500 whose body holds an empty \<^verbatim>\<open>message\<close>: no message is
  provided, and the notification shows the fallback.
\<close>

lemma empty_message_gives_fallback:
  "err_message (Some \<lparr>resp_status = 500, resp_data = JObj [(''message'', JStr [])]\<rparr>) = JStr [] \<and>
   notifications (effects (activate \<lparr>cookies = [''token'' \<mapsto> ''abc''],
      axios_get = (\<lambda>req. Rejected (Some \<lparr>resp_status = 500,
                                             resp_data = JObj [(''message'', JStr [])]\<rparr>))\<rparr>)) =
     [JStr ''Data is not found'', JStr ''Profile is not found.'']"
  by (simp add: activate_simps)

text \<open>
  Claim C4. At an activation with a token where the request fails and the status is not
  401 (also when no response came back), the component shows a notification whose text is
  the \<^verbatim>\<open>message\<close> of the error body when one is provided (the field is truthy: a
  non-empty string) and \<^verbatim>\<open>Data is not found\<close> otherwise (the field is absent, empty
  or otherwise falsy); it does not redirect, it has sent the one request, and the view is
  left in the no-record render branch (profile \<^verbatim>\<open>null\<close>, \<^verbatim>\<open>loading\<close> false).
\<close>

theorem other_failure_notification:
  assumes "cookies e ''token'' = Some t" and "t \<noteq> []"
    and "axios_get e \<lparr>req_url = ''/api/auth/signup'',
                       req_headers = [(''Authorization'', ''Bearer '' @ t)]\<rparr> = Rejected response"
    and "err_status response \<noteq> JNum 401"
  shows "(if truthy (err_message response) then err_message response
          else JStr ''Data is not found'') \<in> set (notifications (effects (activate e))) \<and>
         (\<forall>s. err_message response = JStr s \<and> s \<noteq> [] \<longrightarrow>
            JStr s \<in> set (notifications (effects (activate e)))) \<and>
         (err_message response = JUndefined \<or> err_message response = JStr [] \<longrightarrow>
            JStr ''Data is not found'' \<in> set (notifications (effects (activate e)))) \<and>
         redirects (effects (activate e)) = [] \<and>
         fetches (effects (activate e)) =
           [\<lparr>req_url = ''/api/auth/signup'',
             req_headers = [(''Authorization'', ''Bearer '' @ t)]\<rparr>] \<and>
         final_state (activate e) = \<lparr>profileData = JNull, loading = False\<rparr> \<and>
         final_render (activate e) = ToastReturn (JStr ''Profile is not found.'')"
  using assms
  by (auto simp add: activate_def fetchUserData_def Profile_def initial_state_def Cookies_get_def
      js_or_def Let_def)

theorem other_failure_notification_witness:
  "notifications (effects (activate \<lparr>cookies = [''token'' \<mapsto> ''abc''],
      axios_get = (\<lambda>req. Rejected (Some \<lparr>resp_status = 500,
                       resp_data = JObj [(''message'', JStr ''Server down'')]\<rparr>))\<rparr>)) =
     [JStr ''Server down'', JStr ''Profile is not found.''] \<and>
   JStr ''Data is not found'' \<in> set (notifications (effects (activate \<lparr>cookies = [''token'' \<mapsto> ''abc''],
      axios_get = (\<lambda>req. Rejected None)\<rparr>))) \<and>
   redirects (effects (activate \<lparr>cookies = [''token'' \<mapsto> ''abc''],
      axios_get = (\<lambda>req. Rejected None)\<rparr>)) = []"
proof -
  let ?r = "Some \<lparr>resp_status = 500, resp_data = JObj [(''message'', JStr ''Server down'')]\<rparr>"
  let ?e1 = "\<lparr>cookies = [''token'' \<mapsto> ''abc''], axios_get = (\<lambda>req. Rejected ?r)\<rparr>"
  let ?e2 = "\<lparr>cookies = [''token'' \<mapsto> ''abc''],
              axios_get = (\<lambda>req. Rejected (None :: http_response option))\<rparr>"
  have a: "err_status ?r \<noteq> JNum 401" and b: "err_status None \<noteq> JNum 401"
    by (simp_all add: err_status_def)
  have "cookies ?e1 ''token'' = Some ''abc''" and "cookies ?e2 ''token'' = Some ''abc''"
    and "''abc'' \<noteq> []" by simp_all
  note h = this
  have 1: "JStr ''Server down'' \<in> set (notifications (effects (activate ?e1)))"
    using other_failure_notification [of ?e1 "''abc''" ?r] a
    by (simp add: err_message_def)
  have 2: "JStr ''Data is not found'' \<in> set (notifications (effects (activate ?e2))) \<and>
        redirects (effects (activate ?e2)) = []"
    using other_failure_notification [of ?e2 "''abc''" None] b
    by (simp add: err_message_def)
  have 3: "notifications (effects (activate ?e1)) =
             [JStr ''Server down'', JStr ''Profile is not found.'']"
    by (simp add: activate_simps)
  from 1 2 3 show ?thesis by blast
qed

end
